theory Spec2Isabelle
  imports Main "HOL-Library.Sublist" "HOL-Library.Char_ord" "HOL-Library.List_Lexorder"
begin

section \<open>Strings and paths\<close>

text \<open>
  JavaScript strings are modelled as \<open>string\<close> (a list of characters).
  \<open>str_includes\<close> is \<^verbatim>\<open>String.prototype.includes\<close>: the argument occurs as a
  contiguous run of characters.
\<close>

fun str_includes :: "string \<Rightarrow> string \<Rightarrow> bool" where
  "str_includes [] sub = (sub = [])"
| "str_includes (ch # cs) sub = (prefix sub (ch # cs) \<or> str_includes cs sub)"

text \<open>
  \<^verbatim>\<open>Array.prototype.join\<close> on an array of strings.
\<close>

fun join :: "string \<Rightarrow> string list \<Rightarrow> string" where
  "join sep [] = []"
| "join sep [x] = x"
| "join sep (x # y # ys) = x @ sep @ join sep (y # ys)"

text \<open>
  \<^verbatim>\<open>path.parse(file)\<close> of Node on a name as a directory listing returns it (no
  path separator in it): the extension starts at the last dot, unless the name has
  no dot, the last dot is the first character, or the name is \<^verbatim>\<open>..\<close>; then the
  extension is empty and the whole name is the \<^verbatim>\<open>name\<close> part.  \<^verbatim>\<open>path.extname\<close>
  is the same \<^verbatim>\<open>ext\<close>.
\<close>

definition parse :: "string \<Rightarrow> string \<times> string" where
  "parse file =
     (let afterDot = takeWhile (\<lambda>c. c \<noteq> CHR ''.'') (rev file);
          startDot = length file - length afterDot - 1
      in if CHR ''.'' \<notin> set file \<or> startDot = 0 \<or> file = ''..''
         then (file, [])
         else (take startDot file, drop startDot file))"

definition parse_name :: "string \<Rightarrow> string" where
  "parse_name file = fst (parse file)"

definition extname :: "string \<Rightarrow> string" where
  "extname file = snd (parse file)"

section \<open>out/src/utils.js\<close>

datatype Languages = Languages_c | Languages_cpp

datatype Architectures = x86 | x64

datatype OperatingSystems = windows | linux | mac

text \<open>
  \<^verbatim>\<open>getArchitecture(compiler)\<close>.  \<open>execSync\<close> stands for the two statements of the
  \<^verbatim>\<open>try\<close> block before the test: \<open>None\<close> when one of them throws (the binary is
  missing, the exit status is not zero, the output cannot be turned into a string), and
  then the \<^verbatim>\<open>catch\<close> branch answers; otherwise the output, one character per byte
  (\<^verbatim>\<open>String.fromCharCode(...byteArray)\<close>).
\<close>

definition getArchitecture :: "(string \<Rightarrow> string option) \<Rightarrow> string \<Rightarrow> Architectures" where
  "getArchitecture execSync compiler =
     (let command = compiler @ '' -dumpmachine'' in
      case execSync command of
        None \<Rightarrow> x86
      | Some str \<Rightarrow> (if str_includes str ''64'' then x64 else x86))"

definition isHeaderFile :: "string \<Rightarrow> bool" where
  "isHeaderFile fileExtLower = list_ex (\<lambda>ext. fileExtLower = ext) [''.hpp'', ''.hh'', ''.hxx'', ''.h'']"

definition isCppSourceFile :: "string \<Rightarrow> bool" where
  "isCppSourceFile fileExtLower = list_ex (\<lambda>ext. fileExtLower = ext) [''.cpp'', ''.cc'', ''.cxx'']"

definition isCSourceFile :: "string \<Rightarrow> bool" where
  "isCSourceFile fileExtLower = (fileExtLower = ''.c'')"

text \<open>
  A directory entry as \<^verbatim>\<open>fs.readdirSync(dir, {withFileTypes: true})\<close> returns it: its
  \<^verbatim>\<open>name\<close> (here \<open>d_name\<close>) and the answer of \<^verbatim>\<open>isFile()\<close>.
\<close>

record Dirent =
  d_name :: string
  isFile :: bool

text \<open>
  \<^verbatim>\<open>getLanguage(fileDirName)\<close>, on the entries of the directory.
\<close>

definition getLanguage :: "Dirent list \<Rightarrow> Languages" where
  "getLanguage fileDirents =
     (let files = map d_name (filter isFile fileDirents);
          anyCppFile = list_ex (\<lambda>file. isCppSourceFile (extname file)) files
      in if anyCppFile then Languages_cpp else Languages_c)"

section \<open>executeTask\<close>

text \<open>
  The TypeScript source of \<^verbatim>\<open>executeTask\<close> follows the compiled utilities in
  \<^verbatim>\<open>out/src/utils.js\<close>.  The module \<^verbatim>\<open>utils/fileUtils\<close> it imports \<^verbatim>\<open>filesInDir\<close> from and
  the version of the settings provider it reads are not among the sources: the listing
  and the provider's fields are arguments here.
\<close>

datatype Builds = debug | release

text \<open>
  The string value of a build mode, as the templates \<^verbatim>\<open>build/${buildMode}/\<close> and
  \<^verbatim>\<open>${buildMode}Main\<close> print it.
\<close>

fun buildModeStr :: "Builds \<Rightarrow> string" where
  "buildModeStr debug = ''debug''"
| "buildModeStr release = ''release''"

text \<open>
  The fields of the settings provider that \<^verbatim>\<open>executeTask\<close> reads (field \<open>f\<close> of
  the provider is \<open>sp_f\<close>).  A compiler or a standard may be \<^verbatim>\<open>undefined\<close> (\<open>None\<close>).
  \<open>sp_compilerArgs\<close> and \<open>sp_linkerArgs\<close> are the text that \<^verbatim>\<open>+=\<close> appends for the
  field's value (nothing is appended for a falsy value, and the empty text is what a
  falsy value would print).
\<close>

record TaskSettings =
  sp_operatingSystem :: OperatingSystems
  sp_cCompiler :: "string option"
  sp_cppCompiler :: "string option"
  sp_cStandard :: "string option"
  sp_cppStandard :: "string option"
  sp_enableWarnings :: bool
  sp_warningsAsError :: bool
  sp_warnings :: "string list"
  sp_includePaths :: "string list"
  sp_compilerArgs :: string
  sp_linkerArgs :: string

text \<open>
  A template literal prints \<^verbatim>\<open>undefined\<close> for an undefined value.
\<close>

fun template :: "string option \<Rightarrow> string" where
  "template None = ''undefined''"
| "template (Some s) = s"

text \<open>
  The flags, in the order in which \<^verbatim>\<open>executeTask\<close> appends them to
  \<^verbatim>\<open>fullCompilerArgs\<close>.
\<close>

definition warningsStr :: "TaskSettings \<Rightarrow> string" where
  "warningsStr sp =
     (let useWarnings = sp_enableWarnings sp;
          warningsAsErrors = sp_warningsAsError sp;
          w0 = (if useWarnings then join '' '' (sp_warnings sp) else []);
          w1 = (if useWarnings \<and> warningsAsErrors then w0 @ '' -Werror'' else w0)
      in w1)"

definition standardStr :: "string option \<Rightarrow> string" where
  "standardStr standard =
     (case standard of
        None \<Rightarrow> []
      | Some s \<Rightarrow> (if s \<noteq> [] then '' --std='' @ s else []))"

fun optimizationStr :: "Builds \<Rightarrow> string" where
  "optimizationStr debug = '' -g3 -O0''"
| "optimizationStr release = '' -O3 -DNDEBUG''"

definition includesStr :: "TaskSettings \<Rightarrow> string" where
  "includesStr sp = join '' -I '' (sp_includePaths sp)"

definition fullCompilerArgs :: "TaskSettings \<Rightarrow> Languages \<Rightarrow> Builds \<Rightarrow> string" where
  "fullCompilerArgs sp language buildMode =
     (let standard = (if language = Languages_cpp then sp_cppStandard sp else sp_cStandard sp);
          a0 = [];
          a1 = (if warningsStr sp \<noteq> [] then a0 @ warningsStr sp else a0);
          a2 = a1 @ standardStr standard;
          a3 = a2 @ optimizationStr buildMode;
          a4 = (if sp_compilerArgs sp \<noteq> [] then a3 @ sp_compilerArgs sp else a3);
          a5 = (if sp_linkerArgs sp \<noteq> [] then a4 @ sp_linkerArgs sp else a4);
          a6 = (if includesStr sp \<noteq> [] then a5 @ includesStr sp else a5)
      in a6)"

text \<open>
  The state of the loop over the files: the command line so far, the object files so
  far, and the file system (the paths that exist).
\<close>

record LoopState =
  commandLine :: string
  objectFiles :: "string list"
  existing :: "string set"

text \<open>
  The guard of the loop body: the two \<^verbatim>\<open>continue\<close> branches.
\<close>

definition skipped :: "Languages \<Rightarrow> string \<Rightarrow> bool" where
  "skipped language fileExtension =
     (if language = Languages_c \<and> \<not> isCSourceFile fileExtension then True
      else if language = Languages_cpp \<and> \<not> isCppSourceFile fileExtension then True
      else False)"

text \<open>
  One iteration of \<^verbatim>\<open>for (const file of files)\<close>.  \<open>pathJoin\<close> is \<^verbatim>\<open>path.join\<close>;
  \<^verbatim>\<open>mkdirRecursive\<close> makes the build directory exist.
\<close>

definition loopBody ::
  "(string list \<Rightarrow> string) \<Rightarrow> string \<Rightarrow> string \<Rightarrow> string \<Rightarrow> string \<Rightarrow> Languages
     \<Rightarrow> string \<Rightarrow> LoopState \<Rightarrow> LoopState" where
  "loopBody pathJoin activeFolder buildDir compiler args language file st =
     (let fileExtension = extname file in
      if skipped language fileExtension then st
      else
        let fileBaseName = parse_name file;
            filePath = pathJoin [activeFolder, file];
            objectFilePath = pathJoin [buildDir, fileBaseName @ ''.o''];
            fs = (if buildDir \<notin> existing st then insert buildDir (existing st)
                  else existing st);
            fullFileArgs = ''-c '' @ filePath @ '' -o '' @ objectFilePath
        in \<lparr> commandLine =
               (if length (commandLine st) = 0
                then commandLine st @ compiler @ '' '' @ args @ '' '' @ fullFileArgs
                else commandLine st @ '' && '' @ compiler @ '' '' @ args @ '' '' @ fullFileArgs),
             objectFiles = objectFiles st @ [objectFilePath],
             existing = fs \<rparr>)"

fun loop ::
  "(string list \<Rightarrow> string) \<Rightarrow> string \<Rightarrow> string \<Rightarrow> string \<Rightarrow> string \<Rightarrow> Languages
     \<Rightarrow> string list \<Rightarrow> LoopState \<Rightarrow> LoopState" where
  "loop pathJoin activeFolder buildDir compiler args language [] st = st"
| "loop pathJoin activeFolder buildDir compiler args language (file # files) st =
     loop pathJoin activeFolder buildDir compiler args language files
       (loopBody pathJoin activeFolder buildDir compiler args language file st)"

definition buildDirOf :: "(string list \<Rightarrow> string) \<Rightarrow> string \<Rightarrow> Builds \<Rightarrow> string" where
  "buildDirOf pathJoin activeFolder buildMode =
     pathJoin [activeFolder, ''build/'' @ buildModeStr buildMode @ ''/'']"

definition executablePathOf ::
  "(string list \<Rightarrow> string) \<Rightarrow> TaskSettings \<Rightarrow> string \<Rightarrow> Builds \<Rightarrow> string" where
  "executablePathOf pathJoin sp activeFolder buildMode =
     (let buildDir = buildDirOf pathJoin activeFolder buildMode;
          executableName =
            (if sp_operatingSystem sp = windows then buildModeStr buildMode @ ''Main.exe''
             else buildModeStr buildMode @ ''Main'')
      in pathJoin [buildDir, executableName])"

text \<open>
  \<^verbatim>\<open>executeTask(task, settingsProvider, activeFolder, buildMode)\<close>.  \<open>hasExecution\<close> is
  the test \<^verbatim>\<open>task && task.execution\<close>; \<open>fileDirents\<close> are the entries of the active
  folder that \<^verbatim>\<open>getLanguage\<close> reads, \<open>files\<close> is the listing \<^verbatim>\<open>filesInDir(activeFolder)\<close>,
  \<open>fs\<close> the paths that exist before the call.  The result is the command line handed to
  \<^verbatim>\<open>vscode.tasks.executeTask\<close> (\<open>None\<close> when nothing is handed over) and the paths
  that exist afterwards.
\<close>

definition executeTask ::
  "(string list \<Rightarrow> string) \<Rightarrow> bool \<Rightarrow> TaskSettings \<Rightarrow> string \<Rightarrow> Builds
     \<Rightarrow> Dirent list \<Rightarrow> string list \<Rightarrow> string set \<Rightarrow> string option \<times> string set" where
  "executeTask pathJoin hasExecution sp activeFolder buildMode fileDirents files fs =
     (let language = getLanguage fileDirents;
          buildDir = buildDirOf pathJoin activeFolder buildMode;
          executablePath = executablePathOf pathJoin sp activeFolder buildMode;
          compiler = template (if language = Languages_cpp then sp_cppCompiler sp else sp_cCompiler sp);
          args = fullCompilerArgs sp language buildMode;
          st = loop pathJoin activeFolder buildDir compiler args language files
                 \<lparr> commandLine = [], objectFiles = [], existing = fs \<rparr>;
          objectFilesStr = join '' '' (objectFiles st);
          fullObjectFileArgs = objectFilesStr @ '' -o '' @ executablePath
      in if hasExecution
         then (Some (commandLine st @ '' && '' @ compiler @ '' '' @ args @ '' ''
                       @ fullObjectFileArgs),
               existing st)
         else (None, existing st))"

text \<open>
  The files for which the loop body passes both \<^verbatim>\<open>continue\<close> branches, the compile
  sub-command it appends for such a file, and the object file it pushes.
\<close>

definition compileSet :: "Languages \<Rightarrow> string list \<Rightarrow> string list" where
  "compileSet language files = filter (\<lambda>file. \<not> skipped language (extname file)) files"

definition compileCommand ::
  "(string list \<Rightarrow> string) \<Rightarrow> string \<Rightarrow> string \<Rightarrow> string \<Rightarrow> string \<Rightarrow> string \<Rightarrow> string" where
  "compileCommand pathJoin activeFolder buildDir compiler args file =
     compiler @ '' '' @ args @ '' -c '' @ pathJoin [activeFolder, file] @ '' -o ''
       @ pathJoin [buildDir, parse_name file @ ''.o'']"

definition objectFileOf :: "(string list \<Rightarrow> string) \<Rightarrow> string \<Rightarrow> string \<Rightarrow> string" where
  "objectFileOf pathJoin buildDir file = pathJoin [buildDir, parse_name file @ ''.o'']"

section \<open>JSON values and the persisted settings document\<close>

text \<open>
  The values of a parsed JSON document, as JavaScript handles them at run time (the
  type annotations of the TypeScript source are erased).  Numbers are integers here:
  the code only tests whether a number is zero.
\<close>

datatype json =
    JNull
  | JBool bool
  | JNum int
  | JStr string
  | JArr "json list"
  | JObj "(string \<times> json) list"

datatype jsError = TypeError

text \<open>
  The truth value of a value in a condition (\<^verbatim>\<open>if (v)\<close>, \<^verbatim>\<open>!v\<close>, \<^verbatim>\<open>a && b\<close>).
\<close>

fun truthy :: "json \<Rightarrow> bool" where
  "truthy JNull = False"
| "truthy (JBool b) = b"
| "truthy (JNum n) = (n \<noteq> 0)"
| "truthy (JStr s) = (s \<noteq> [])"
| "truthy (JArr xs) = True"
| "truthy (JObj kvs) = True"

text \<open>
  Sequencing of calls that may throw: the first exception ends the sequence.
\<close>

definition andThen :: "jsError + 'a \<Rightarrow> ('a \<Rightarrow> jsError + 'b) \<Rightarrow> jsError + 'b" where
  "andThen m f = (case m of Inl e \<Rightarrow> Inl e | Inr x \<Rightarrow> f x)"

text \<open>
  \<^verbatim>\<open>String.prototype.split(separator)\<close> for a separator that is not empty: the pieces
  between the occurrences of the separator, read from the left.
\<close>

function split_from :: "string \<Rightarrow> string \<Rightarrow> string \<Rightarrow> string list" where
  "split_from sep acc [] = [rev acc]"
| "split_from sep acc (ch # cs) =
     (if sep \<noteq> [] \<and> prefix sep (ch # cs)
      then rev acc # split_from sep [] (drop (length sep) (ch # cs))
      else split_from sep (ch # acc) cs)"
  by pat_completeness auto
termination
  by (relation "measure (\<lambda>(sep, acc, s). length s)") auto

definition split :: "string \<Rightarrow> string \<Rightarrow> string list" where
  "split s sep = split_from sep [] s"


text \<open>
  A settings document is a flat object: a map from keys to values.  The file at
  \<^verbatim>\<open>_outputPath\<close> is absent, holds text that \<^verbatim>\<open>JSON.parse\<close> rejects, or holds an object.
  (A file whose text is a JSON value other than an object is outside this model.)
\<close>

type_synonym JsonSettings = "string \<rightharpoonup> json"

datatype FileState = Missing | Malformed | Document JsonSettings

text \<open>
  \<^verbatim>\<open>readJsonFile(filePath)\<close>: \<^verbatim>\<open>undefined\<close> (\<open>None\<close>) when reading or parsing throws.
  \<^verbatim>\<open>writeJsonFile(outputFilePath, jsonContent)\<close> replaces the content of the file.
  \<^verbatim>\<open>pathExists\<close> of the output path.
\<close>

fun readJsonFile :: "FileState \<Rightarrow> JsonSettings option" where
  "readJsonFile Missing = None"
| "readJsonFile Malformed = None"
| "readJsonFile (Document configJson) = Some configJson"

definition writeJsonFile :: "JsonSettings \<Rightarrow> FileState" where
  "writeJsonFile jsonContent = Document jsonContent"

fun outputPathExists :: "FileState \<Rightarrow> bool" where
  "outputPathExists Missing = False"
| "outputPathExists Malformed = True"
| "outputPathExists (Document configJson) = True"

section \<open>src/provider/settingsProvider.ts\<close>

definition EXTENSION_NAME :: string where
  "EXTENSION_NAME = ''C_Cpp_Runner''"

definition DEFAULT_C_COMPILER_PATH :: json where
  "DEFAULT_C_COMPILER_PATH = JStr ''gcc''"

definition DEFAULT_CPP_COMPILER_PATH :: json where
  "DEFAULT_CPP_COMPILER_PATH = JStr ''g++''"

definition DEFAULT_DEBUGGER_PATH :: json where
  "DEFAULT_DEBUGGER_PATH = JStr ''gdb''"

definition DEFAULT_MSVC_BATCH_PATH :: json where
  "DEFAULT_MSVC_BATCH_PATH = JStr ''''"

definition DEFAULT_MSVC_TOOLS_PATH :: json where
  "DEFAULT_MSVC_TOOLS_PATH = JStr ''''"

definition DEFAULT_C_STANDARD_UNIX :: json where
  "DEFAULT_C_STANDARD_UNIX = JStr ''''"

definition DEFAULT_CPP_STANDARD :: json where
  "DEFAULT_CPP_STANDARD = JStr ''''"

definition DEFAULT_INCLUDE_SEARCH :: json where
  "DEFAULT_INCLUDE_SEARCH = JArr [JStr ''*'', JStr ''**/*'']"

definition DEFAULT_EXCLUDE_SEARCH :: json where
  "DEFAULT_EXCLUDE_SEARCH =
     JArr [JStr ''**/build'', JStr ''**/build/**'', JStr ''**/.*'', JStr ''**/.*/**'',
           JStr ''**/.vscode'', JStr ''**/.vscode/**'']"

definition DEFAULT_ENABLE_WARNINGS :: json where
  "DEFAULT_ENABLE_WARNINGS = JBool True"

definition DEFAULT_WARNINGS_AS_ERRORS :: json where
  "DEFAULT_WARNINGS_AS_ERRORS = JBool False"

definition DEFAULT_WARNINGS_UNIX :: json where
  "DEFAULT_WARNINGS_UNIX = JArr [JStr ''-Wall'', JStr ''-Wextra'', JStr ''-Wpedantic'']"

definition DEFAULT_WARNINGS_MSVC :: json where
  "DEFAULT_WARNINGS_MSVC = JArr [JStr ''/W4'']"

definition DEFAULT_COMPILER_ARGS :: json where
  "DEFAULT_COMPILER_ARGS = JArr []"

definition DEFAULT_LINKER_ARGS :: json where
  "DEFAULT_LINKER_ARGS = JArr []"

definition DEFAULT_INCLUDE_PATHS :: json where
  "DEFAULT_INCLUDE_PATHS = JArr []"

definition DEFAULT_USE_MSVC :: json where
  "DEFAULT_USE_MSVC = JBool False"

text \<open>
  The fields of \<^verbatim>\<open>SettingsProvider\<close>.  A field read from a document or from the
  configuration holds whatever value was stored there.
\<close>

record SettingsProvider =
  operatingSystem :: OperatingSystems
  architecure :: "Architectures option"
  isCygwin :: bool
  cCompilerPath :: json
  cppCompilerPath :: json
  debuggerPath :: json
  msvcBatchPath :: json
  msvcToolsPath :: json
  useMsvc :: json
  cStandard :: json
  cppStandard :: json
  compilerArgs :: json
  linkerArgs :: json
  includePaths :: json
  includeSearch :: json
  excludeSearch :: json
  enableWarnings :: json
  warningsAsError :: json
  warnings :: json

text \<open>
  The values of the field initialisers, for the operating system the host reports.
\<close>

definition initialProvider :: "OperatingSystems \<Rightarrow> SettingsProvider" where
  "initialProvider os =
     \<lparr> operatingSystem = os, architecure = None, isCygwin = False,
       cCompilerPath = DEFAULT_C_COMPILER_PATH, cppCompilerPath = DEFAULT_CPP_COMPILER_PATH,
       debuggerPath = DEFAULT_DEBUGGER_PATH, msvcBatchPath = DEFAULT_MSVC_BATCH_PATH,
       msvcToolsPath = DEFAULT_MSVC_TOOLS_PATH, useMsvc = DEFAULT_USE_MSVC,
       cStandard = DEFAULT_C_STANDARD_UNIX, cppStandard = DEFAULT_CPP_STANDARD,
       compilerArgs = DEFAULT_COMPILER_ARGS, linkerArgs = DEFAULT_LINKER_ARGS,
       includePaths = DEFAULT_INCLUDE_PATHS, includeSearch = DEFAULT_INCLUDE_SEARCH,
       excludeSearch = DEFAULT_EXCLUDE_SEARCH, enableWarnings = DEFAULT_ENABLE_WARNINGS,
       warningsAsError = DEFAULT_WARNINGS_AS_ERRORS, warnings = DEFAULT_WARNINGS_UNIX \<rparr>"

text \<open>
  What the provider reads from outside its own file: the configuration object of
  \<^verbatim>\<open>C_Cpp_Runner\<close> (\<^verbatim>\<open>_configGlobal\<close>, with \<^verbatim>\<open>has\<close> and \<^verbatim>\<open>get\<close>), the \<^verbatim>\<open>default\<close> entry of the
  configuration object of \<^verbatim>\<open>C_Cpp\<close>, the folder listing \<^verbatim>\<open>foldersInDir\<close>, \<^verbatim>\<open>pathExists\<close>,
  \<^verbatim>\<open>path.join\<close> and the compiler probe \<^verbatim>\<open>getCompilerArchitecture\<close> (its answer:
  the architecture and the Cygwin flag).
\<close>

record Env =
  configGlobal :: JsonSettings
  configGlobalCCppDefault :: "JsonSettings option"
  env_foldersInDir :: "string \<Rightarrow> string list"
  env_pathExists :: "string \<Rightarrow> bool"
  env_pathJoin :: "string list \<Rightarrow> string"
  env_getCompilerArchitecture :: "json \<Rightarrow> Architectures \<times> bool"

text \<open>
  Modelled from the spec: \<^verbatim>\<open>localSettingExist(key, settingsJson)\<close> of
  \<^verbatim>\<open>utils/fileUtils\<close> is not among the sources.  The spec makes the presence of the key
  in the document the test, and says that the stored path is not checked.
\<close>

definition localSettingExist :: "string \<Rightarrow> JsonSettings \<Rightarrow> bool" where
  "localSettingExist key settingsJson = (settingsJson key \<noteq> None)"

definition commandsAlreadyStored :: "FileState \<Rightarrow> bool" where
  "commandsAlreadyStored file =
     (if outputPathExists file then
        (case readJsonFile file of
           None \<Rightarrow> False
         | Some settingsJson \<Rightarrow>
             (if localSettingExist (EXTENSION_NAME @ ''.cCompilerPath'') settingsJson \<and>
                 localSettingExist (EXTENSION_NAME @ ''.cppCompilerPath'') settingsJson \<and>
                 localSettingExist (EXTENSION_NAME @ ''.debuggerPath'') settingsJson
              then True else False))
      else False)"

definition updateCheck :: "FileState \<Rightarrow> bool" where
  "updateCheck file =
     (let settingsMissing = False in
      if \<not> outputPathExists file then True
      else if \<not> commandsAlreadyStored file then True
      else settingsMissing)"


definition getSettingsValue ::
  "Env \<Rightarrow> JsonSettings option \<Rightarrow> string \<Rightarrow> json \<Rightarrow> bool \<Rightarrow> json" where
  "getSettingsValue env settingsLocal key defaultValue isExtensionSetting =
     (let settingName = (if isExtensionSetting then EXTENSION_NAME @ ''.'' @ key else key) in
      case (case settingsLocal of None \<Rightarrow> None | Some d \<Rightarrow> d settingName) of
        Some v \<Rightarrow> v
      | None \<Rightarrow> (case configGlobal env key of Some v \<Rightarrow> v | None \<Rightarrow> defaultValue))"

text \<open>
  \<^verbatim>\<open>update(key, value)\<close>: read, merge, write.
\<close>

definition update :: "FileState \<Rightarrow> string \<Rightarrow> json \<Rightarrow> FileState" where
  "update file key v =
     (let settingsJson = (case readJsonFile file of None \<Rightarrow> Map.empty | Some d \<Rightarrow> d);
          settingName = EXTENSION_NAME @ ''.'' @ key
      in writeJsonFile (settingsJson(settingName \<mapsto> v)))"



text \<open>
  \<^verbatim>\<open>searchMsvcToolsPath()\<close>.  \<^verbatim>\<open>split\<close> exists for a string only.  An index past the end
  of an array reads \<^verbatim>\<open>undefined\<close> (\<open>None\<close>).
\<close>

definition architecturePathOf :: "Architectures option \<Rightarrow> string" where
  "architecturePathOf arch =
     (if arch = Some x64 \<or> arch = None then ''bin/Hostx64/x64'' else ''bin/Hostx86/x86'')"

definition searchMsvcToolsPath :: "Env \<Rightarrow> SettingsProvider \<Rightarrow> jsError + SettingsProvider" where
  "searchMsvcToolsPath env this =
     (case msvcBatchPath this of
        JStr batch \<Rightarrow>
          (let msvcBasePath0 = hd (split batch ''VC'') in
           if msvcBasePath0 = [] then Inr this
           else
             let msvcBasePath = msvcBasePath0 @ ''VC/Tools/MSVC'';
                 installed_versions = env_foldersInDir env msvcBasePath;
                 newst_version_path =
                   (if installed_versions = [] then None else Some (last installed_versions))
             in if length installed_versions = 0 \<or> newst_version_path = None
                   \<or> newst_version_path = Some [] then Inr this
                else
                  let newst_version_path_splitted = split (the newst_version_path) [CHR 0x5C]
                  in if length newst_version_path_splitted = 0 then Inr this
                     else
                       let versionNumber = last newst_version_path_splitted
                       in if versionNumber = [] then Inr this
                          else
                            let architecturePath = architecturePathOf (architecure this)
                            in if \<not> env_pathExists env architecturePath then Inr this
                               else Inr (this\<lparr> msvcToolsPath :=
                                      JStr (env_pathJoin env
                                              [msvcBasePath, versionNumber, architecturePath]) \<rparr>))
      | _ \<Rightarrow> Inl TypeError)"

text \<open>
  The test \<^verbatim>\<open>this.warnings.some((warning) => warning.includes('/'))\<close>.  \<^verbatim>\<open>some\<close> exists for
  an array only and stops at the first element for which the callback answers true;
  \<^verbatim>\<open>includes\<close> exists for a string (a substring test) and for an array (a membership
  test).
\<close>

fun warningIncludes :: "json \<Rightarrow> jsError + bool" where
  "warningIncludes (JStr warning) = Inr (str_includes warning ''/'')"
| "warningIncludes (JArr warning) = Inr (JStr ''/'' \<in> set warning)"
| "warningIncludes JNull = Inl TypeError"
| "warningIncludes (JBool b) = Inl TypeError"
| "warningIncludes (JNum n) = Inl TypeError"
| "warningIncludes (JObj kvs) = Inl TypeError"

fun someWarning :: "json list \<Rightarrow> jsError + bool" where
  "someWarning [] = Inr False"
| "someWarning (w # ws) =
     (case warningIncludes w of
        Inl e \<Rightarrow> Inl e
      | Inr found \<Rightarrow> (if found then Inr True else someWarning ws))"

definition msvcWarningsOf :: "json \<Rightarrow> jsError + bool" where
  "msvcWarningsOf ws = (case ws of JArr xs \<Rightarrow> someWarning xs | _ \<Rightarrow> Inl TypeError)"

text \<open>
  \<^verbatim>\<open>this.includePaths.push(...globalIncludePath)\<close>: \<^verbatim>\<open>push\<close> exists for an array only; the
  spread takes the elements of an array and the characters of a string, and throws for
  any other value.  (The configuration object \<^verbatim>\<open>_configGlobalCCpp\<close> itself always
  exists, so the test on it is passed.)  \<^verbatim>\<open>push\<close> changes the array in place; when the
  array is the static default \<^verbatim>\<open>DEFAULT_INCLUDE_PATHS\<close>, a later load finds the default
  grown.  The default is a constant here: nothing below depends on the content of the
  include paths.
\<close>

definition pushSpread :: "json \<Rightarrow> json \<Rightarrow> jsError + json" where
  "pushSpread arr items =
     (case arr of
        JArr xs \<Rightarrow>
          (case items of
             JArr ys \<Rightarrow> Inr (JArr (xs @ ys))
           | JStr s \<Rightarrow> Inr (JArr (xs @ map (\<lambda>ch. JStr [ch]) s))
           | _ \<Rightarrow> Inl TypeError)
      | _ \<Rightarrow> Inl TypeError)"

text \<open>
  \<^verbatim>\<open>loadLocalSettings()\<close>, in four parts that follow the source from top to bottom: the
  paths and the \<^verbatim>\<open>useMsvc\<close> flag, the warnings with their rewrite, the other optional
  settings, and the include path of the \<^verbatim>\<open>C_Cpp\<close> configuration.  An exception ends the
  call; the values assigned before it are not reported.
\<close>

definition loadPaths :: "Env \<Rightarrow> JsonSettings option \<Rightarrow> SettingsProvider \<Rightarrow> SettingsProvider" where
  "loadPaths env settingsLocal this =
     this\<lparr> cCompilerPath :=
             getSettingsValue env settingsLocal ''cCompilerPath'' DEFAULT_C_COMPILER_PATH True,
           cppCompilerPath :=
             getSettingsValue env settingsLocal ''cppCompilerPath'' DEFAULT_CPP_COMPILER_PATH True,
           debuggerPath :=
             getSettingsValue env settingsLocal ''debuggerPath'' DEFAULT_DEBUGGER_PATH True,
           msvcBatchPath :=
             getSettingsValue env settingsLocal ''msvcBatchPath'' DEFAULT_MSVC_BATCH_PATH True,
           useMsvc := getSettingsValue env settingsLocal ''useMsvc'' DEFAULT_USE_MSVC True \<rparr>"

definition loadWarnings ::
  "Env \<Rightarrow> JsonSettings option \<Rightarrow> SettingsProvider \<Rightarrow> jsError + SettingsProvider" where
  "loadWarnings env settingsLocal this0 =
     (let this = this0\<lparr> enableWarnings :=
                    getSettingsValue env settingsLocal ''enableWarnings'' DEFAULT_ENABLE_WARNINGS True,
                  warnings :=
                    getSettingsValue env settingsLocal ''warnings'' DEFAULT_WARNINGS_UNIX True \<rparr>
      in andThen (msvcWarningsOf (warnings this)) (\<lambda>msvcWarnings.
           if truthy (useMsvc this) \<and> \<not> msvcWarnings
           then Inr (this\<lparr> warnings := DEFAULT_WARNINGS_MSVC \<rparr>)
           else if \<not> truthy (useMsvc this) \<and> msvcWarnings
           then Inr (this\<lparr> warnings := DEFAULT_WARNINGS_UNIX \<rparr>)
           else Inr this))"

definition loadOptional :: "Env \<Rightarrow> JsonSettings option \<Rightarrow> SettingsProvider \<Rightarrow> SettingsProvider" where
  "loadOptional env settingsLocal this =
     this\<lparr> warningsAsError :=
             getSettingsValue env settingsLocal ''warningsAsError'' DEFAULT_WARNINGS_AS_ERRORS True,
           cStandard := getSettingsValue env settingsLocal ''cStandard'' DEFAULT_C_STANDARD_UNIX True,
           cppStandard := getSettingsValue env settingsLocal ''cppStandard'' DEFAULT_CPP_STANDARD True,
           compilerArgs :=
             getSettingsValue env settingsLocal ''compilerArgs'' DEFAULT_COMPILER_ARGS True,
           linkerArgs := getSettingsValue env settingsLocal ''linkerArgs'' DEFAULT_LINKER_ARGS True,
           includePaths :=
             getSettingsValue env settingsLocal ''includePaths'' DEFAULT_INCLUDE_PATHS True,
           includeSearch :=
             getSettingsValue env settingsLocal ''includeSearch'' DEFAULT_INCLUDE_SEARCH True,
           excludeSearch :=
             getSettingsValue env settingsLocal ''excludeSearch'' DEFAULT_EXCLUDE_SEARCH True \<rparr>"

definition loadGlobalIncludePath :: "Env \<Rightarrow> SettingsProvider \<Rightarrow> jsError + SettingsProvider" where
  "loadGlobalIncludePath env this =
     (let globalIncludePath =
            getSettingsValue env (configGlobalCCppDefault env) ''includePath'' (JStr []) False
      in if truthy globalIncludePath \<and> globalIncludePath \<noteq> JStr []
         then andThen (pushSpread (includePaths this) globalIncludePath)
                (\<lambda>paths. Inr (this\<lparr> includePaths := paths \<rparr>))
         else Inr this)"

definition loadLocalSettings :: "Env \<Rightarrow> FileState \<Rightarrow> SettingsProvider \<Rightarrow> jsError + SettingsProvider" where
  "loadLocalSettings env file this0 =
     (let settingsLocal = readJsonFile file;
          this1 = loadPaths env settingsLocal this0
      in andThen (if truthy (useMsvc this1) then searchMsvcToolsPath env this1 else Inr this1) (\<lambda>this2.
         andThen (loadWarnings env settingsLocal this2) (\<lambda>this3.
         loadGlobalIncludePath env (loadOptional env settingsLocal this3))))"






section \<open>Example environments\<close>

text \<open>
  An environment with no configuration entry, no folder and no path, for the concrete
  instances below.
\<close>

definition exampleEnv :: Env where
  "exampleEnv =
     \<lparr> configGlobal = Map.empty, configGlobalCCppDefault = None,
       env_foldersInDir = (\<lambda>dir. []), env_pathExists = (\<lambda>p. False),
       env_pathJoin = join ''/'', env_getCompilerArchitecture = (\<lambda>compiler. (x64, False)) \<rparr>"



section \<open>Properties of the strings\<close>

lemma str_includes_iff: "str_includes s sub \<longleftrightarrow> (\<exists>ps ss. s = ps @ sub @ ss)"
proof (induction s)
  case Nil
  then show ?case by auto
next
  case (Cons a s)
  show ?case
  proof
    assume "str_includes (a # s) sub"
    then consider "prefix sub (a # s)" | "str_includes s sub" by auto
    then show "\<exists>ps ss. a # s = ps @ sub @ ss"
    proof cases
      case 1
      then obtain ss where "a # s = sub @ ss" by (auto simp: prefix_def)
      then have "a # s = [] @ sub @ ss" by simp
      then show ?thesis by blast
    next
      case 2
      with Cons.IH obtain ps ss where "s = ps @ sub @ ss" by blast
      then have "a # s = (a # ps) @ sub @ ss" by simp
      then show ?thesis by blast
    qed
  next
    assume "\<exists>ps ss. a # s = ps @ sub @ ss"
    then obtain ps ss where eq: "a # s = ps @ sub @ ss" by blast
    show "str_includes (a # s) sub"
    proof (cases ps)
      case Nil
      with eq have "prefix sub (a # s)" by (simp add: prefix_def)
      then show ?thesis by simp
    next
      case (Cons p ps')
      with eq have "s = ps' @ sub @ ss" by simp
      with Cons.IH have "str_includes s sub" by blast
      then show ?thesis by simp
    qed
  qed
qed

section \<open>The loop of executeTask\<close>

lemma join_Cons: "join sep (x # xs) = x @ concat (map (\<lambda>y. sep @ y) xs)"
  by (induction xs arbitrary: x) auto

lemma loopBody_skipped:
  "skipped language (extname f) \<Longrightarrow>
   loopBody pathJoin activeFolder buildDir compiler args language f st = st"
  by (simp add: loopBody_def)

lemma loopBody_kept:
  "\<not> skipped language (extname f) \<Longrightarrow>
   loopBody pathJoin activeFolder buildDir compiler args language f st =
     \<lparr> commandLine =
         (if commandLine st = [] then compileCommand pathJoin activeFolder buildDir compiler args f
          else commandLine st @ '' && '' @ compileCommand pathJoin activeFolder buildDir compiler args f),
       objectFiles = objectFiles st @ [objectFileOf pathJoin buildDir f],
       existing = insert buildDir (existing st) \<rparr>"
  by (auto simp: loopBody_def Let_def compileCommand_def objectFileOf_def)

lemma compileCommand_nonempty:
  "compileCommand pathJoin activeFolder buildDir compiler args f \<noteq> []"
  by (simp add: compileCommand_def)

lemma loop_nonempty_start:
  "commandLine st \<noteq> [] \<Longrightarrow>
   loop pathJoin activeFolder buildDir compiler args language files st =
     \<lparr> commandLine = commandLine st @
         concat (map (\<lambda>f. '' && '' @ compileCommand pathJoin activeFolder buildDir compiler args f)
                   (compileSet language files)),
       objectFiles = objectFiles st @ map (objectFileOf pathJoin buildDir) (compileSet language files),
       existing = (if compileSet language files = [] then existing st
                   else insert buildDir (existing st)) \<rparr>"
proof (induction files arbitrary: st)
  case Nil
  then show ?case by (simp add: compileSet_def)
next
  case (Cons f fs)
  show ?case
  proof (cases "skipped language (extname f)")
    case True
    then show ?thesis using Cons.IH [OF Cons.prems]
      by (simp add: loopBody_skipped compileSet_def)
  next
    case False
    let ?st' = "loopBody pathJoin activeFolder buildDir compiler args language f st"
    have ne: "commandLine ?st' \<noteq> []"
      using False Cons.prems by (simp add: loopBody_kept)
    show ?thesis
      using False Cons.prems Cons.IH [OF ne]
      by (simp add: loopBody_kept compileSet_def)
  qed
qed

lemma loop_empty_start:
  "loop pathJoin activeFolder buildDir compiler args language files
     \<lparr> commandLine = [], objectFiles = [], existing = fs \<rparr> =
     \<lparr> commandLine = join '' && ''
         (map (compileCommand pathJoin activeFolder buildDir compiler args) (compileSet language files)),
       objectFiles = map (objectFileOf pathJoin buildDir) (compileSet language files),
       existing = (if compileSet language files = [] then fs else insert buildDir fs) \<rparr>"
proof (induction files)
  case Nil
  then show ?case by (simp add: compileSet_def)
next
  case (Cons f fs')
  show ?case
  proof (cases "skipped language (extname f)")
    case True
    then show ?thesis using Cons.IH
      by (simp add: loopBody_skipped compileSet_def)
  next
    case False
    let ?st' = "loopBody pathJoin activeFolder buildDir compiler args language f
                  \<lparr> commandLine = [], objectFiles = [], existing = fs \<rparr>"
    have ne: "commandLine ?st' \<noteq> []"
      using False by (simp add: loopBody_kept compileCommand_nonempty)
    show ?thesis
      using False loop_nonempty_start [OF ne, of pathJoin activeFolder buildDir compiler args language fs']
      by (simp add: loopBody_kept compileSet_def join_Cons comp_def)
  qed
qed

lemma executeTask_eq:
  "executeTask pathJoin True sp activeFolder buildMode fileDirents files fs =
     (let language = getLanguage fileDirents;
          buildDir = buildDirOf pathJoin activeFolder buildMode;
          compiler = template (if language = Languages_cpp then sp_cppCompiler sp else sp_cCompiler sp);
          args = fullCompilerArgs sp language buildMode;
          sources = compileSet language files
      in (Some (join '' && '' (map (compileCommand pathJoin activeFolder buildDir compiler args) sources)
                @ '' && '' @ compiler @ '' '' @ args @ '' ''
                @ join '' '' (map (objectFileOf pathJoin buildDir) sources)
                @ '' -o '' @ executablePathOf pathJoin sp activeFolder buildMode),
          if sources = [] then fs else insert buildDir fs))"
  by (simp add: executeTask_def Let_def loop_empty_start)

lemma fullCompilerArgs_eq:
  "fullCompilerArgs sp language buildMode =
     warningsStr sp
     @ standardStr (if language = Languages_cpp then sp_cppStandard sp else sp_cStandard sp)
     @ optimizationStr buildMode @ sp_compilerArgs sp @ sp_linkerArgs sp @ includesStr sp"
  by (simp add: fullCompilerArgs_def Let_def)

lemma skipped_c: "skipped Languages_c ext \<longleftrightarrow> ext \<noteq> ''.c''"
  by (simp add: skipped_def isCSourceFile_def)

lemma skipped_cpp: "skipped Languages_cpp ext \<longleftrightarrow> ext \<notin> {''.cpp'', ''.cc'', ''.cxx''}"
  by (auto simp: skipped_def isCppSourceFile_def)

lemma getLanguage_cpp_iff:
  "getLanguage fileDirents = Languages_cpp \<longleftrightarrow>
     (\<exists>d \<in> set fileDirents. isFile d \<and> extname (d_name d) \<in> {''.cpp'', ''.cc'', ''.cxx''})"
  by (auto simp: getLanguage_def Let_def list_ex_iff isCppSourceFile_def)

section \<open>Command synthesis\<close>

text \<open>
  C1.  For a folder that resolves to C++ and whose listing holds the C++ sources
  \<^verbatim>\<open>a.cpp\<close> and \<^verbatim>\<open>b.cpp\<close> in this order, the command line of a release build is:
  the compile sub-command of \<^verbatim>\<open>a.cpp\<close> to \<^verbatim>\<open>a.o\<close>, the separator \<^verbatim>\<open>&&\<close>, the compile
  sub-command of \<^verbatim>\<open>b.cpp\<close> to \<^verbatim>\<open>b.o\<close>, the separator, and the link sub-command of
  \<^verbatim>\<open>a.o\<close> and \<^verbatim>\<open>b.o\<close> to \<^verbatim>\<open>releaseMain\<close> (\<^verbatim>\<open>releaseMain.exe\<close> on Windows).  In each
  sub-command the flags are, in this order: the warnings, the language standard, the
  optimization pair (\<^verbatim>\<open>-O3 -DNDEBUG\<close> for release, \<^verbatim>\<open>-g3 -O0\<close> for debug), the extra
  compiler arguments, the extra linker arguments, the include paths.
\<close>

theorem executeTask_command_ordering:
  assumes "getLanguage fileDirents = Languages_cpp"
    and "filter (\<lambda>f. extname f \<in> {''.cpp'', ''.cc'', ''.cxx''}) files = [''a.cpp'', ''b.cpp'']"
  shows "let compiler = template (sp_cppCompiler sp);
             flags = warningsStr sp @ standardStr (sp_cppStandard sp) @ '' -O3 -DNDEBUG''
                     @ sp_compilerArgs sp @ sp_linkerArgs sp @ includesStr sp;
             buildDir = pathJoin [activeFolder, ''build/release/''];
             executable = pathJoin [buildDir,
               if sp_operatingSystem sp = windows then ''releaseMain.exe'' else ''releaseMain'']
         in fst (executeTask pathJoin True sp activeFolder release fileDirents files fs) =
            Some (compiler @ '' '' @ flags @ '' -c '' @ pathJoin [activeFolder, ''a.cpp'']
                    @ '' -o '' @ pathJoin [buildDir, ''a.o'']
                  @ '' && ''
                  @ compiler @ '' '' @ flags @ '' -c '' @ pathJoin [activeFolder, ''b.cpp'']
                    @ '' -o '' @ pathJoin [buildDir, ''b.o'']
                  @ '' && ''
                  @ compiler @ '' '' @ flags @ '' '' @ pathJoin [buildDir, ''a.o''] @ '' ''
                    @ pathJoin [buildDir, ''b.o''] @ '' -o '' @ executable)
            \<and> fullCompilerArgs sp Languages_cpp release = flags
            \<and> fullCompilerArgs sp Languages_cpp debug =
                warningsStr sp @ standardStr (sp_cppStandard sp) @ '' -g3 -O0''
                @ sp_compilerArgs sp @ sp_linkerArgs sp @ includesStr sp"
proof -
  have cs: "compileSet Languages_cpp files = [''a.cpp'', ''b.cpp'']"
    using assms(2) by (simp add: compileSet_def skipped_cpp)
  have pa: "parse_name ''a.cpp'' = ''a''" and pb: "parse_name ''b.cpp'' = ''b''"
    by (simp_all add: parse_name_def parse_def)
  show ?thesis
    by (simp add: Let_def executeTask_eq assms(1) cs compileCommand_def objectFileOf_def pa pb
        fullCompilerArgs_eq buildDirOf_def executablePathOf_def)
qed

theorem executeTask_command_ordering_witness:
  "fst (executeTask (join ''/'') True
         \<lparr> sp_operatingSystem = linux, sp_cCompiler = Some ''gcc'', sp_cppCompiler = Some ''g++'',
           sp_cStandard = Some ''c99'', sp_cppStandard = Some ''c++17'', sp_enableWarnings = True,
           sp_warningsAsError = True, sp_warnings = [''-Wall'', ''-Wextra''],
           sp_includePaths = [''inc'', ''lib''], sp_compilerArgs = '' -fPIC'',
           sp_linkerArgs = '' -lm'' \<rparr>
         ''proj'' release
         [\<lparr> d_name = ''a.cpp'', isFile = True \<rparr>, \<lparr> d_name = ''util.h'', isFile = True \<rparr>,
          \<lparr> d_name = ''b.cpp'', isFile = True \<rparr>]
         [''a.cpp'', ''util.h'', ''b.cpp''] {}) =
     Some (''g++ -Wall -Wextra -Werror --std=c++17 -O3 -DNDEBUG -fPIC -lminc -I lib''
           @ '' -c proj/a.cpp -o proj/build/release//a.o''
           @ '' && g++ -Wall -Wextra -Werror --std=c++17 -O3 -DNDEBUG -fPIC -lminc -I lib''
           @ '' -c proj/b.cpp -o proj/build/release//b.o''
           @ '' && g++ -Wall -Wextra -Werror --std=c++17 -O3 -DNDEBUG -fPIC -lminc -I lib''
           @ '' proj/build/release//a.o proj/build/release//b.o''
           @ '' -o proj/build/release//releaseMain'')"
proof -
  let ?ds = "[\<lparr> d_name = ''a.cpp'', isFile = True \<rparr>, \<lparr> d_name = ''util.h'', isFile = True \<rparr>,
          \<lparr> d_name = ''b.cpp'', isFile = True \<rparr>]"
  have l: "getLanguage ?ds = Languages_cpp"
    by (simp add: getLanguage_def isCppSourceFile_def extname_def parse_def)
  have f: "filter (\<lambda>f. extname f \<in> {''.cpp'', ''.cc'', ''.cxx''}) [''a.cpp'', ''util.h'', ''b.cpp'']
             = [''a.cpp'', ''b.cpp'']"
    by (simp add: extname_def parse_def)
  show ?thesis
    using executeTask_command_ordering [OF l f, of "\<lparr> sp_operatingSystem = linux, sp_cCompiler = Some ''gcc'', sp_cppCompiler = Some ''g++'',
           sp_cStandard = Some ''c99'', sp_cppStandard = Some ''c++17'', sp_enableWarnings = True,
           sp_warningsAsError = True, sp_warnings = [''-Wall'', ''-Wextra''],
           sp_includePaths = [''inc'', ''lib''], sp_compilerArgs = '' -fPIC'',
           sp_linkerArgs = '' -lm'' \<rparr>" "join ''/''" "''proj''" "{}"]
    by (simp add: Let_def warningsStr_def standardStr_def includesStr_def)
qed

text \<open>
  C3.  When no file entry of the folder has the extension \<^verbatim>\<open>.cpp\<close>, \<^verbatim>\<open>.cc\<close> or \<^verbatim>\<open>.cxx\<close>,
  the language is C and the compile set is the \<^verbatim>\<open>.c\<close> files of the listing.  When some
  file entry has one of these extensions, the language is C++, the compile set is the
  \<^verbatim>\<open>.cpp\<close>, \<^verbatim>\<open>.cc\<close> and \<^verbatim>\<open>.cxx\<close> files of the listing, and no \<^verbatim>\<open>.c\<close> file of the listing is
  in it.  The compile sub-commands of the command line are those of the compile set, in
  the order of the listing.
\<close>

theorem getLanguage_compile_set:
  "(\<not> (\<exists>d \<in> set fileDirents. isFile d \<and> extname (d_name d) \<in> {''.cpp'', ''.cc'', ''.cxx''}) \<longrightarrow>
      getLanguage fileDirents = Languages_c \<and>
      compileSet (getLanguage fileDirents) files = filter (\<lambda>f. extname f = ''.c'') files)
   \<and> ((\<exists>d \<in> set fileDirents. isFile d \<and> extname (d_name d) \<in> {''.cpp'', ''.cc'', ''.cxx''}) \<longrightarrow>
      getLanguage fileDirents = Languages_cpp \<and>
      compileSet (getLanguage fileDirents) files =
        filter (\<lambda>f. extname f \<in> {''.cpp'', ''.cc'', ''.cxx''}) files \<and>
      (\<forall>f \<in> set files. extname f = ''.c'' \<longrightarrow> f \<notin> set (compileSet (getLanguage fileDirents) files)))
   \<and> (let language = getLanguage fileDirents;
            buildDir = buildDirOf pathJoin activeFolder buildMode;
            compiler = template (if language = Languages_cpp then sp_cppCompiler sp else sp_cCompiler sp);
            args = fullCompilerArgs sp language buildMode;
            sources = compileSet language files
        in fst (executeTask pathJoin True sp activeFolder buildMode fileDirents files fs) =
           Some (join '' && '' (map (compileCommand pathJoin activeFolder buildDir compiler args) sources)
                 @ '' && '' @ compiler @ '' '' @ args @ '' ''
                 @ join '' '' (map (objectFileOf pathJoin buildDir) sources)
                 @ '' -o '' @ executablePathOf pathJoin sp activeFolder buildMode))"
proof (intro conjI impI)
  assume no: "\<not> (\<exists>d \<in> set fileDirents. isFile d \<and> extname (d_name d) \<in> {''.cpp'', ''.cc'', ''.cxx''})"
  then have "getLanguage fileDirents \<noteq> Languages_cpp"
    by (simp only: getLanguage_cpp_iff not_False_eq_True)
  then show l: "getLanguage fileDirents = Languages_c"
    by (cases "getLanguage fileDirents") simp_all
  show "compileSet (getLanguage fileDirents) files = filter (\<lambda>f. extname f = ''.c'') files"
    by (simp add: l compileSet_def skipped_c)
next
  assume yes: "\<exists>d \<in> set fileDirents. isFile d \<and> extname (d_name d) \<in> {''.cpp'', ''.cc'', ''.cxx''}"
  then show l: "getLanguage fileDirents = Languages_cpp"
    by (simp only: getLanguage_cpp_iff)
  show "compileSet (getLanguage fileDirents) files =
          filter (\<lambda>f. extname f \<in> {''.cpp'', ''.cc'', ''.cxx''}) files"
    by (simp add: l compileSet_def skipped_cpp)
  show "\<forall>f \<in> set files. extname f = ''.c'' \<longrightarrow> f \<notin> set (compileSet (getLanguage fileDirents) files)"
    by (simp add: l compileSet_def skipped_cpp)
next
  show "let language = getLanguage fileDirents;
            buildDir = buildDirOf pathJoin activeFolder buildMode;
            compiler = template (if language = Languages_cpp then sp_cppCompiler sp else sp_cCompiler sp);
            args = fullCompilerArgs sp language buildMode;
            sources = compileSet language files
        in fst (executeTask pathJoin True sp activeFolder buildMode fileDirents files fs) =
           Some (join '' && '' (map (compileCommand pathJoin activeFolder buildDir compiler args) sources)
                 @ '' && '' @ compiler @ '' '' @ args @ '' ''
                 @ join '' '' (map (objectFileOf pathJoin buildDir) sources)
                 @ '' -o '' @ executablePathOf pathJoin sp activeFolder buildMode)"
    by (simp add: executeTask_eq Let_def)
qed

theorem getLanguage_compile_set_witness:
  "getLanguage [\<lparr> d_name = ''main.c'', isFile = True \<rparr>, \<lparr> d_name = ''x.cpp'', isFile = False \<rparr>] = Languages_c
   \<and> compileSet (getLanguage [\<lparr> d_name = ''main.c'', isFile = True \<rparr>, \<lparr> d_name = ''x.cpp'', isFile = False \<rparr>])
        [''main.c'', ''util.h''] = [''main.c'']
   \<and> getLanguage [\<lparr> d_name = ''main.c'', isFile = True \<rparr>, \<lparr> d_name = ''a.cc'', isFile = True \<rparr>] = Languages_cpp
   \<and> compileSet (getLanguage [\<lparr> d_name = ''main.c'', isFile = True \<rparr>, \<lparr> d_name = ''a.cc'', isFile = True \<rparr>])
        [''main.c'', ''a.cc''] = [''a.cc'']
   \<and> ''main.c'' \<notin> set (compileSet (getLanguage [\<lparr> d_name = ''main.c'', isFile = True \<rparr>, \<lparr> d_name = ''a.cc'', isFile = True \<rparr>])
        [''main.c'', ''a.cc''])"
proof -
  let ?d1 = "[\<lparr> d_name = ''main.c'', isFile = True \<rparr>, \<lparr> d_name = ''x.cpp'', isFile = False \<rparr>]"
  let ?d2 = "[\<lparr> d_name = ''main.c'', isFile = True \<rparr>, \<lparr> d_name = ''a.cc'', isFile = True \<rparr>]"
  have e: "extname ''main.c'' = ''.c''" "extname ''a.cc'' = ''.cc''" "extname ''util.h'' = ''.h''"
    "extname ''x.cpp'' = ''.cpp''"
    by (simp_all add: extname_def parse_def)
  have n1: "\<not> (\<exists>d \<in> set ?d1. isFile d \<and> extname (d_name d) \<in> {''.cpp'', ''.cc'', ''.cxx''})"
    by (simp add: e)
  have y2: "\<exists>d \<in> set ?d2. isFile d \<and> extname (d_name d) \<in> {''.cpp'', ''.cc'', ''.cxx''}"
    by (simp add: e)
  from n1 getLanguage_compile_set [where fileDirents = ?d1 and files = "[''main.c'', ''util.h'']"
      and pathJoin = "join ''/''" and activeFolder = "[]" and buildMode = debug and fs = "{}" and sp =
      "\<lparr> sp_operatingSystem = linux, sp_cCompiler = None, sp_cppCompiler = None,
         sp_cStandard = None, sp_cppStandard = None, sp_enableWarnings = False,
         sp_warningsAsError = False, sp_warnings = [], sp_includePaths = [],
         sp_compilerArgs = [], sp_linkerArgs = [] \<rparr>"]
  have a: "getLanguage ?d1 = Languages_c \<and>
      compileSet (getLanguage ?d1) [''main.c'', ''util.h''] = filter (\<lambda>f. extname f = ''.c'') [''main.c'', ''util.h'']"
    by blast
  from y2 getLanguage_compile_set [where fileDirents = ?d2 and files = "[''main.c'', ''a.cc'']"
      and pathJoin = "join ''/''" and activeFolder = "[]" and buildMode = debug and fs = "{}" and sp =
      "\<lparr> sp_operatingSystem = linux, sp_cCompiler = None, sp_cppCompiler = None,
         sp_cStandard = None, sp_cppStandard = None, sp_enableWarnings = False,
         sp_warningsAsError = False, sp_warnings = [], sp_includePaths = [],
         sp_compilerArgs = [], sp_linkerArgs = [] \<rparr>"]
  have b: "getLanguage ?d2 = Languages_cpp \<and>
      compileSet (getLanguage ?d2) [''main.c'', ''a.cc''] =
        filter (\<lambda>f. extname f \<in> {''.cpp'', ''.cc'', ''.cxx''}) [''main.c'', ''a.cc''] \<and>
      (\<forall>f \<in> set [''main.c'', ''a.cc'']. extname f = ''.c'' \<longrightarrow> f \<notin> set (compileSet (getLanguage ?d2) [''main.c'', ''a.cc'']))"
    by blast
  from a have l1: "getLanguage ?d1 = Languages_c" by blast
  from b have l2: "getLanguage ?d2 = Languages_cpp" by blast
  from a l1 have c1: "compileSet Languages_c [''main.c'', ''util.h''] = [''main.c'']"
    by (simp add: e)
  from b l2 have c2: "compileSet Languages_cpp [''main.c'', ''a.cc''] = [''a.cc'']"
    by (simp add: e)
  show ?thesis by (simp add: l1 l2 c1 c2)
qed

text \<open>
  C10.  When no file of the listing has a source extension of the resolved language, the
  executor still receives a command line: the separator \<^verbatim>\<open>&&\<close> first (nothing was
  accumulated), then the link sub-command with no object file.  The file system is as
  before the call: the build directory is only made inside the loop body.
\<close>

theorem executeTask_no_source_files:
  assumes "\<forall>f \<in> set files.
             \<not> (if getLanguage fileDirents = Languages_cpp then isCppSourceFile (extname f)
                else isCSourceFile (extname f))"
  shows "let language = getLanguage fileDirents;
             compiler = template (if language = Languages_cpp then sp_cppCompiler sp else sp_cCompiler sp);
             args = fullCompilerArgs sp language buildMode
         in executeTask pathJoin True sp activeFolder buildMode fileDirents files fs =
              (Some ('' && '' @ compiler @ '' '' @ args @ '' '' @ [] @ '' -o ''
                     @ executablePathOf pathJoin sp activeFolder buildMode),
               fs)"
proof -
  have "\<forall>f \<in> set files. skipped (getLanguage fileDirents) (extname f)"
    using assms by (cases "getLanguage fileDirents") (auto simp: skipped_def)
  then have "compileSet (getLanguage fileDirents) files = []"
    by (simp add: compileSet_def)
  then show ?thesis
    by (simp add: executeTask_eq Let_def)
qed

theorem executeTask_no_source_files_witness:
  "executeTask (join ''/'') True
     \<lparr> sp_operatingSystem = windows, sp_cCompiler = Some ''gcc'', sp_cppCompiler = Some ''g++'',
       sp_cStandard = None, sp_cppStandard = None, sp_enableWarnings = False,
       sp_warningsAsError = False, sp_warnings = [''-Wall''], sp_includePaths = [],
       sp_compilerArgs = [], sp_linkerArgs = [] \<rparr>
     ''proj'' debug [\<lparr> d_name = ''README.md'', isFile = True \<rparr>] [''README.md''] {} =
   (Some '' && gcc  -g3 -O0  -o proj/build/debug//debugMain.exe'', {})"
proof -
  let ?ds = "[\<lparr> d_name = ''README.md'', isFile = True \<rparr>]"
  have e: "extname ''README.md'' = ''.md''"
    by (simp add: extname_def parse_def)
  have h: "\<forall>f \<in> set [''README.md''].
             \<not> (if getLanguage ?ds = Languages_cpp then isCppSourceFile (extname f)
                else isCSourceFile (extname f))"
    by (simp add: e isCppSourceFile_def isCSourceFile_def)
  have l: "getLanguage ?ds = Languages_c"
    by (simp add: getLanguage_def e isCppSourceFile_def)
  show ?thesis
    using executeTask_no_source_files [OF h, where pathJoin = "join ''/''" and activeFolder = "''proj''"
      and buildMode = debug and fs = "{}" and sp = "\<lparr> sp_operatingSystem = windows, sp_cCompiler = Some ''gcc'', sp_cppCompiler = Some ''g++'',
       sp_cStandard = None, sp_cppStandard = None, sp_enableWarnings = False,
       sp_warningsAsError = False, sp_warnings = [''-Wall''], sp_includePaths = [],
       sp_compilerArgs = [], sp_linkerArgs = [] \<rparr>"]
    by (simp add: Let_def l fullCompilerArgs_eq warningsStr_def standardStr_def includesStr_def
        executablePathOf_def buildDirOf_def)
qed

section \<open>The architecture probe\<close>

text \<open>
  C6.  The probe answers \<^verbatim>\<open>x64\<close> exactly when the compiler, run with \<^verbatim>\<open>-dumpmachine\<close>,
  succeeds with an output that contains \<^verbatim>\<open>64\<close>.  When the run fails the answer is
  \<^verbatim>\<open>x86\<close>; there is no third outcome, in particular no error.
\<close>

theorem getArchitecture_x64_iff:
  "(getArchitecture execSync compiler = x64 \<longleftrightarrow>
      (\<exists>out ps ss. execSync (compiler @ '' -dumpmachine'') = Some out \<and> out = ps @ ''64'' @ ss))
   \<and> (execSync (compiler @ '' -dumpmachine'') = None \<longrightarrow> getArchitecture execSync compiler = x86)
   \<and> (getArchitecture execSync compiler \<noteq> x64 \<longrightarrow> getArchitecture execSync compiler = x86)"
proof (intro conjI impI)
  show "getArchitecture execSync compiler = x64 \<longleftrightarrow>
      (\<exists>out ps ss. execSync (compiler @ '' -dumpmachine'') = Some out \<and> out = ps @ ''64'' @ ss)"
    by (cases "execSync (compiler @ '' -dumpmachine'')")
       (auto simp: getArchitecture_def str_includes_iff)
next
  assume "execSync (compiler @ '' -dumpmachine'') = None"
  then show "getArchitecture execSync compiler = x86"
    by (simp add: getArchitecture_def)
next
  assume "getArchitecture execSync compiler \<noteq> x64"
  then show "getArchitecture execSync compiler = x86"
    by (cases "getArchitecture execSync compiler") simp_all
qed

theorem getArchitecture_x64_iff_witness:
  "getArchitecture (\<lambda>command. None) ''gcc'' = x86
   \<and> getArchitecture (\<lambda>command. if command = ''gcc -dumpmachine'' then Some ''x86_64-linux-gnu'' else None) ''gcc'' = x64
   \<and> getArchitecture (\<lambda>command. Some ''i686-w64-mingw32'') ''gcc'' = x64
   \<and> getArchitecture (\<lambda>command. Some ''arm-none-eabi'') ''gcc'' = x86"
proof -
  have a: "getArchitecture (\<lambda>command. None) ''gcc'' = x86"
    using getArchitecture_x64_iff [of "\<lambda>command. None" "''gcc''"] by simp
  let ?e = "\<lambda>command. if command = ''gcc -dumpmachine'' then Some ''x86_64-linux-gnu'' else None"
  have "?e (''gcc'' @ '' -dumpmachine'') = Some ''x86_64-linux-gnu''
          \<and> ''x86_64-linux-gnu'' = ''x86_'' @ ''64'' @ ''-linux-gnu''"
    by simp
  then have "\<exists>out ps ss. ?e (''gcc'' @ '' -dumpmachine'') = Some out \<and> out = ps @ ''64'' @ ss"
    by blast
  then have b: "getArchitecture ?e ''gcc'' = x64"
    using getArchitecture_x64_iff [of ?e "''gcc''"] by blast
  have c: "getArchitecture (\<lambda>command. Some ''i686-w64-mingw32'') ''gcc'' = x64"
    by (simp add: getArchitecture_def)
  have d: "getArchitecture (\<lambda>command. Some ''arm-none-eabi'') ''gcc'' = x86"
    by (simp add: getArchitecture_def)
  from a b c d show ?thesis by simp
qed

section \<open>The persisted settings document\<close>

text \<open>
  C4.  The completeness test \<^verbatim>\<open>commandsAlreadyStored\<close> holds exactly when the file holds a
  document in which the three keys \<^verbatim>\<open>C_Cpp_Runner.cCompilerPath\<close>,
  \<^verbatim>\<open>C_Cpp_Runner.cppCompilerPath\<close> and \<^verbatim>\<open>C_Cpp_Runner.debuggerPath\<close> are all present, and
  \<^verbatim>\<open>updateCheck\<close> reports the settings missing exactly when it fails.  Two documents that
  agree on which of the three keys are present pass or fail together, whatever their
  other keys and whatever the values stored: no other key takes part and no stored path
  is examined.
\<close>

theorem commandsAlreadyStored_iff:
  "(commandsAlreadyStored file \<longleftrightarrow>
      (\<exists>d. file = Document d \<and> d ''C_Cpp_Runner.cCompilerPath'' \<noteq> None
           \<and> d ''C_Cpp_Runner.cppCompilerPath'' \<noteq> None
           \<and> d ''C_Cpp_Runner.debuggerPath'' \<noteq> None))
   \<and> (updateCheck file \<longleftrightarrow> \<not> commandsAlreadyStored file)
   \<and> (\<forall>d d'. (\<forall>k \<in> {''C_Cpp_Runner.cCompilerPath'', ''C_Cpp_Runner.cppCompilerPath'',
                       ''C_Cpp_Runner.debuggerPath''}. (d k = None) = (d' k = None)) \<longrightarrow>
          commandsAlreadyStored (Document d) = commandsAlreadyStored (Document d'))"
proof (intro conjI allI impI)
  show "commandsAlreadyStored file \<longleftrightarrow>
      (\<exists>d. file = Document d \<and> d ''C_Cpp_Runner.cCompilerPath'' \<noteq> None
           \<and> d ''C_Cpp_Runner.cppCompilerPath'' \<noteq> None
           \<and> d ''C_Cpp_Runner.debuggerPath'' \<noteq> None)"
    by (cases "file") (simp_all add: commandsAlreadyStored_def localSettingExist_def EXTENSION_NAME_def)
  show "updateCheck file \<longleftrightarrow> \<not> commandsAlreadyStored file"
    by (cases "file") (simp_all add: updateCheck_def commandsAlreadyStored_def)
next
  fix d d' :: JsonSettings
  assume "\<forall>k \<in> {''C_Cpp_Runner.cCompilerPath'', ''C_Cpp_Runner.cppCompilerPath'',
                  ''C_Cpp_Runner.debuggerPath''}. (d k = None) = (d' k = None)"
  then show "commandsAlreadyStored (Document d) = commandsAlreadyStored (Document d')"
    by (simp add: commandsAlreadyStored_def localSettingExist_def EXTENSION_NAME_def)
qed

theorem commandsAlreadyStored_iff_witness:
  "commandsAlreadyStored
     (Document [''C_Cpp_Runner.cCompilerPath'' \<mapsto> JStr ''/no/such/gcc'',
                ''C_Cpp_Runner.cppCompilerPath'' \<mapsto> JStr ''g++'',
                ''C_Cpp_Runner.debuggerPath'' \<mapsto> JStr ''gdb''])
   \<and> \<not> commandsAlreadyStored
     (Document [''C_Cpp_Runner.cCompilerPath'' \<mapsto> JStr ''gcc'',
                ''C_Cpp_Runner.cppCompilerPath'' \<mapsto> JStr ''g++'',
                ''C_Cpp_Runner.warnings'' \<mapsto> JArr []])
   \<and> commandsAlreadyStored
     (Document [''C_Cpp_Runner.cCompilerPath'' \<mapsto> JNull,
                ''C_Cpp_Runner.cppCompilerPath'' \<mapsto> JNull,
                ''C_Cpp_Runner.debuggerPath'' \<mapsto> JNull])"
proof -
  let ?d1 = "[''C_Cpp_Runner.cCompilerPath'' \<mapsto> JStr ''/no/such/gcc'',
                ''C_Cpp_Runner.cppCompilerPath'' \<mapsto> JStr ''g++'',
                ''C_Cpp_Runner.debuggerPath'' \<mapsto> JStr ''gdb'']"
  let ?d2 = "[''C_Cpp_Runner.cCompilerPath'' \<mapsto> JStr ''gcc'',
                ''C_Cpp_Runner.cppCompilerPath'' \<mapsto> JStr ''g++'',
                ''C_Cpp_Runner.warnings'' \<mapsto> JArr []]"
  let ?d3 = "[''C_Cpp_Runner.cCompilerPath'' \<mapsto> JNull,
                ''C_Cpp_Runner.cppCompilerPath'' \<mapsto> JNull,
                ''C_Cpp_Runner.debuggerPath'' \<mapsto> JNull]"
  have a: "commandsAlreadyStored (Document ?d1)"
    using commandsAlreadyStored_iff [of "Document ?d1"] by simp
  have b: "\<not> commandsAlreadyStored (Document ?d2)"
    using commandsAlreadyStored_iff [of "Document ?d2"] by simp
  have "\<forall>k \<in> {''C_Cpp_Runner.cCompilerPath'', ''C_Cpp_Runner.cppCompilerPath'',
                ''C_Cpp_Runner.debuggerPath''}. (?d1 k = None) = (?d3 k = None)"
    by simp
  then have "commandsAlreadyStored (Document ?d1) = commandsAlreadyStored (Document ?d3)"
    using commandsAlreadyStored_iff [of "Document ?d1"] by blast
  with a have c: "commandsAlreadyStored (Document ?d3)" by simp
  from a b c show ?thesis by simp
qed

text \<open>
  C7.  \<^verbatim>\<open>update(k, v)\<close> on a document \<open>D\<close> writes a document in which the key
  \<^verbatim>\<open>C_Cpp_Runner.k\<close> holds \<open>v\<close> and every other key holds what it holds in \<open>D\<close> (absent
  keys stay absent).  When the file is absent or does not parse, the document written has
  this one entry and no other.
\<close>

theorem update_frame:
  "(\<exists>D'. update (Document D) k v = Document D'
          \<and> D' (''C_Cpp_Runner.'' @ k) = Some v
          \<and> (\<forall>k'. k' \<noteq> ''C_Cpp_Runner.'' @ k \<longrightarrow> D' k' = D k'))
   \<and> (\<forall>file \<in> {Missing, Malformed}.
         \<exists>D'. update file k v = Document D'
             \<and> D' (''C_Cpp_Runner.'' @ k) = Some v
             \<and> dom D' = {''C_Cpp_Runner.'' @ k})"
  by (simp add: update_def writeJsonFile_def EXTENSION_NAME_def)

theorem update_frame_witness:
  "(\<exists>D'. update (Document [''editor.tabSize'' \<mapsto> JNum 2, ''C_Cpp_Runner.cStandard'' \<mapsto> JStr ''c99''])
            ''cStandard'' (JStr ''c11'') = Document D'
          \<and> D' ''C_Cpp_Runner.cStandard'' = Some (JStr ''c11'')
          \<and> D' ''editor.tabSize'' = Some (JNum 2)
          \<and> D' ''C_Cpp_Runner.cppStandard'' = None)
   \<and> (\<exists>D'. update Malformed ''cStandard'' (JStr ''c11'') = Document D'
          \<and> D' ''C_Cpp_Runner.cStandard'' = Some (JStr ''c11'')
          \<and> dom D' = {''C_Cpp_Runner.cStandard''})"
proof -
  let ?D = "[''editor.tabSize'' \<mapsto> JNum 2, ''C_Cpp_Runner.cStandard'' \<mapsto> JStr ''c99'']"
  from update_frame [of ?D "''cStandard''" "JStr ''c11''"]
  obtain D' where u: "update (Document ?D) ''cStandard'' (JStr ''c11'') = Document D'"
    and s: "D' (''C_Cpp_Runner.'' @ ''cStandard'') = Some (JStr ''c11'')"
    and f: "\<forall>k'. k' \<noteq> ''C_Cpp_Runner.'' @ ''cStandard'' \<longrightarrow> D' k' = ?D k'"
    by blast
  from f have "D' ''editor.tabSize'' = ?D ''editor.tabSize''"
    and "D' ''C_Cpp_Runner.cppStandard'' = ?D ''C_Cpp_Runner.cppStandard''"
    by simp_all
  with u s have a: "\<exists>D'. update (Document ?D) ''cStandard'' (JStr ''c11'') = Document D'
          \<and> D' ''C_Cpp_Runner.cStandard'' = Some (JStr ''c11'')
          \<and> D' ''editor.tabSize'' = Some (JNum 2)
          \<and> D' ''C_Cpp_Runner.cppStandard'' = None"
    by simp
  from update_frame [of ?D "''cStandard''" "JStr ''c11''"]
  have b: "\<exists>D'. update Malformed ''cStandard'' (JStr ''c11'') = Document D'
          \<and> D' ''C_Cpp_Runner.cStandard'' = Some (JStr ''c11'')
          \<and> dom D' = {''C_Cpp_Runner.cStandard''}"
    by simp
  from a b show ?thesis by simp
qed

section \<open>The architecture in Microsoft toolchain mode\<close>



section \<open>Loading the local settings\<close>

lemma andThen_Inr_iff:
  "andThen m f = Inr y \<longleftrightarrow> (\<exists>x. m = Inr x \<and> f x = Inr y)"
  by (cases m) (simp_all add: andThen_def)

lemma andThen_Inr [simp]: "andThen (Inr x) f = f x"
  by (simp add: andThen_def)

lemma andThen_Inl [simp]: "andThen (Inl e) f = Inl e"
  by (simp add: andThen_def)

lemma split_from_nonempty: "split_from sep acc s \<noteq> []"
  by (induction sep acc s rule: split_from.induct) auto

lemma split_nonempty: "split s sep \<noteq> []"
  by (simp add: split_def split_from_nonempty)

lemma searchMsvcToolsPath_eq:
  "msvcBatchPath this = JStr batch \<Longrightarrow>
   searchMsvcToolsPath env this =
     (let base = hd (split batch ''VC'');
          listing = env_foldersInDir env (base @ ''VC/Tools/MSVC'');
          version = last (split (last listing) [CHR 0x5C]);
          arch = architecturePathOf (architecure this)
      in Inr (if base = [] \<or> listing = [] \<or> last listing = [] \<or> version = []
                 \<or> \<not> env_pathExists env arch
              then this
              else this\<lparr> msvcToolsPath :=
                     JStr (env_pathJoin env [base @ ''VC/Tools/MSVC'', version, arch]) \<rparr>))"
  by (simp add: searchMsvcToolsPath_def Let_def split_nonempty)


lemma searchMsvcToolsPath_Inr:
  assumes "searchMsvcToolsPath env this = Inr this'"
  shows "\<exists>p. this' = this\<lparr> msvcToolsPath := p \<rparr>"
proof (cases "msvcBatchPath this")
  case (JStr batch)
  show ?thesis
  proof (cases "searchMsvcToolsPath env this = Inr this")
    case True
    with assms have "this' = this\<lparr> msvcToolsPath := msvcToolsPath this \<rparr>" by simp
    then show ?thesis by blast
  next
    case False
    with assms show ?thesis
      unfolding searchMsvcToolsPath_eq [OF JStr] Let_def
      by (simp split: if_splits) blast
  qed
qed (use assms in \<open>simp_all add: searchMsvcToolsPath_def\<close>)

lemma loadGlobalIncludePath_Inr:
  assumes "loadGlobalIncludePath env this = Inr this'"
  shows "\<exists>p. this' = this\<lparr> includePaths := p \<rparr>"
proof (cases "loadGlobalIncludePath env this = Inr this")
  case True
  with assms have "this' = this\<lparr> includePaths := includePaths this \<rparr>" by simp
  then show ?thesis by blast
next
  case False
  with assms show ?thesis
    by (auto simp: loadGlobalIncludePath_def Let_def andThen_Inr_iff split: if_splits)
qed


lemma loadWarnings_Inr:
  assumes "loadWarnings env settingsLocal this = Inr this'"
  shows "\<exists>msvc. msvcWarningsOf (getSettingsValue env settingsLocal ''warnings'' DEFAULT_WARNINGS_UNIX True) = Inr msvc
          \<and> this' = this\<lparr> enableWarnings :=
                    getSettingsValue env settingsLocal ''enableWarnings'' DEFAULT_ENABLE_WARNINGS True,
                  warnings :=
                    (if truthy (useMsvc this) \<and> \<not> msvc then DEFAULT_WARNINGS_MSVC
                     else if \<not> truthy (useMsvc this) \<and> msvc then DEFAULT_WARNINGS_UNIX
                     else getSettingsValue env settingsLocal ''warnings'' DEFAULT_WARNINGS_UNIX True) \<rparr>"
proof -
  let ?w = "getSettingsValue env settingsLocal ''warnings'' DEFAULT_WARNINGS_UNIX True"
  from assms obtain msvc where m: "msvcWarningsOf ?w = Inr msvc"
    by (cases "msvcWarningsOf ?w") (simp_all add: loadWarnings_def Let_def)
  with assms show ?thesis
    by (auto simp: loadWarnings_def Let_def split: if_splits)
qed

lemma msvcWarningsOf_defaults:
  "msvcWarningsOf DEFAULT_WARNINGS_MSVC = Inr True"
  "msvcWarningsOf DEFAULT_WARNINGS_UNIX = Inr False"
  by (simp_all add: msvcWarningsOf_def DEFAULT_WARNINGS_MSVC_def DEFAULT_WARNINGS_UNIX_def)


lemma loadLocalSettings_Inr:
  assumes "loadLocalSettings env file this = Inr this'"
  shows "\<exists>p2 p3. (if truthy (useMsvc (loadPaths env (readJsonFile file) this))
                  then searchMsvcToolsPath env (loadPaths env (readJsonFile file) this)
                  else Inr (loadPaths env (readJsonFile file) this)) = Inr p2
               \<and> loadWarnings env (readJsonFile file) p2 = Inr p3
               \<and> loadGlobalIncludePath env (loadOptional env (readJsonFile file) p3) = Inr this'"
  using assms unfolding loadLocalSettings_def Let_def andThen_Inr_iff by blast

lemma msvcWarningsOf_strings:
  "msvcWarningsOf (JArr (map JStr ws)) = Inr (\<exists>w \<in> set ws. str_includes w ''/'')"
  by (induction ws) (auto simp: msvcWarningsOf_def)

lemmas load_defs =
  loadLocalSettings_def loadPaths_def loadWarnings_def loadOptional_def loadGlobalIncludePath_def
  getSettingsValue_def searchMsvcToolsPath_def msvcWarningsOf_def pushSpread_def
  initialProvider_def EXTENSION_NAME_def split_def architecturePathOf_def
  DEFAULT_C_COMPILER_PATH_def DEFAULT_CPP_COMPILER_PATH_def DEFAULT_DEBUGGER_PATH_def
  DEFAULT_MSVC_BATCH_PATH_def DEFAULT_MSVC_TOOLS_PATH_def DEFAULT_C_STANDARD_UNIX_def
  DEFAULT_CPP_STANDARD_def DEFAULT_INCLUDE_SEARCH_def DEFAULT_EXCLUDE_SEARCH_def
  DEFAULT_ENABLE_WARNINGS_def DEFAULT_WARNINGS_AS_ERRORS_def DEFAULT_WARNINGS_UNIX_def
  DEFAULT_WARNINGS_MSVC_def DEFAULT_COMPILER_ARGS_def DEFAULT_LINKER_ARGS_def
  DEFAULT_INCLUDE_PATHS_def DEFAULT_USE_MSVC_def

text \<open>
  C2.  As stated the claim fails: with \<^verbatim>\<open>useMsvc\<close> true, a stored list that holds both an
  entry with \<^verbatim>\<open>/\<close> and an entry with \<^verbatim>\<open>-W\<close> is in effect after the load, unchanged.
\<close>

theorem loadLocalSettings_mixed_counterexample:
  "map_sum id (\<lambda>this. (useMsvc this, warnings this))
     (loadLocalSettings exampleEnv
        (Document [''C_Cpp_Runner.useMsvc'' \<mapsto> JBool True,
                   ''C_Cpp_Runner.warnings'' \<mapsto> JArr [JStr ''/W4'', JStr ''-Wall'']])
        (initialProvider windows))
   = Inr (JBool True, JArr [JStr ''/W4'', JStr ''-Wall''])
   \<and> str_includes ''/W4'' ''/'' \<and> str_includes ''-Wall'' ''-W''"
  by (simp add: load_defs exampleEnv_def Let_def)

text \<open>
  C2, amended.  A load that completes sets \<^verbatim>\<open>useMsvc\<close> to the loaded flag and the warnings
  to: the MSVC default list when the flag is true and no entry of the loaded list
  contains \<^verbatim>\<open>/\<close>; the Unix default list when the flag is false and some entry contains
  \<^verbatim>\<open>/\<close>; the loaded list otherwise.  Afterwards some entry of the list in effect contains
  \<^verbatim>\<open>/\<close> exactly when the flag is true.
\<close>

theorem loadLocalSettings_warning_style:
  assumes "loadLocalSettings env file this = Inr this'"
  shows "let loaded = getSettingsValue env (readJsonFile file) ''warnings'' DEFAULT_WARNINGS_UNIX True;
             flag = getSettingsValue env (readJsonFile file) ''useMsvc'' DEFAULT_USE_MSVC True
         in useMsvc this' = flag
            \<and> (\<exists>msvcWarnings. msvcWarningsOf loaded = Inr msvcWarnings
                 \<and> warnings this' =
                     (if truthy flag \<and> \<not> msvcWarnings then DEFAULT_WARNINGS_MSVC
                      else if \<not> truthy flag \<and> msvcWarnings then DEFAULT_WARNINGS_UNIX
                      else loaded))
            \<and> msvcWarningsOf (warnings this') = Inr (truthy flag)
            \<and> (\<forall>ws. warnings this' = JArr (map JStr ws) \<longrightarrow>
                  ((\<exists>w \<in> set ws. \<exists>ps ss. w = ps @ ''/'' @ ss) \<longleftrightarrow> truthy flag))"
proof -
  let ?sl = "readJsonFile file"
  let ?p1 = "loadPaths env ?sl this"
  let ?loaded = "getSettingsValue env ?sl ''warnings'' DEFAULT_WARNINGS_UNIX True"
  let ?flag = "getSettingsValue env ?sl ''useMsvc'' DEFAULT_USE_MSVC True"
  from loadLocalSettings_Inr [OF assms] obtain p2 p3 where
    s: "(if truthy (useMsvc ?p1) then searchMsvcToolsPath env ?p1 else Inr ?p1) = Inr p2"
    and w: "loadWarnings env ?sl p2 = Inr p3"
    and g: "loadGlobalIncludePath env (loadOptional env ?sl p3) = Inr this'"
    by blast
  have u1: "useMsvc ?p1 = ?flag"
    by (simp add: loadPaths_def)
  from s obtain tp where "p2 = ?p1\<lparr> msvcToolsPath := tp \<rparr>"
  proof (cases "truthy (useMsvc ?p1)")
    case True
    with s searchMsvcToolsPath_Inr [of env ?p1 p2] that show ?thesis by auto
  next
    case False
    with s have "p2 = ?p1\<lparr> msvcToolsPath := msvcToolsPath ?p1 \<rparr>" by simp
    with that show ?thesis by blast
  qed
  then have u2: "useMsvc p2 = ?flag"
    using u1 by simp
  from loadWarnings_Inr [OF w] obtain msvc where
    m: "msvcWarningsOf ?loaded = Inr msvc"
    and p3: "p3 = p2\<lparr> enableWarnings :=
                    getSettingsValue env ?sl ''enableWarnings'' DEFAULT_ENABLE_WARNINGS True,
                  warnings :=
                    (if truthy (useMsvc p2) \<and> \<not> msvc then DEFAULT_WARNINGS_MSVC
                     else if \<not> truthy (useMsvc p2) \<and> msvc then DEFAULT_WARNINGS_UNIX
                     else ?loaded) \<rparr>"
    by blast
  from loadGlobalIncludePath_Inr [OF g] obtain ip where
    t: "this' = (loadOptional env ?sl p3)\<lparr> includePaths := ip \<rparr>"
    by blast
  have u': "useMsvc this' = ?flag"
    by (simp add: t p3 loadOptional_def u2)
  have w': "warnings this' =
               (if truthy ?flag \<and> \<not> msvc then DEFAULT_WARNINGS_MSVC
                else if \<not> truthy ?flag \<and> msvc then DEFAULT_WARNINGS_UNIX
                else ?loaded)"
    by (simp add: t p3 loadOptional_def u2)
  have style: "msvcWarningsOf (warnings this') = Inr (truthy ?flag)"
    using m by (auto simp: w' msvcWarningsOf_defaults)
  have strings: "(\<exists>w \<in> set ws. \<exists>ps ss. w = ps @ ''/'' @ ss) \<longleftrightarrow> truthy ?flag"
    if "warnings this' = JArr (map JStr ws)" for ws
    using style unfolding that msvcWarningsOf_strings str_includes_iff by simp
  show ?thesis
    unfolding Let_def using u' m w' style strings by blast
qed

theorem loadLocalSettings_warning_style_witness:
  "(\<exists>this'. loadLocalSettings exampleEnv
        (Document [''C_Cpp_Runner.useMsvc'' \<mapsto> JBool True,
                   ''C_Cpp_Runner.warnings'' \<mapsto> JArr [JStr ''-Wall'', JStr ''-Wextra'']])
        (initialProvider windows) = Inr this'
      \<and> useMsvc this' = JBool True \<and> warnings this' = JArr [JStr ''/W4''])
   \<and> (\<exists>this'. loadLocalSettings exampleEnv
        (Document [''C_Cpp_Runner.warnings'' \<mapsto> JArr [JStr ''/W3'', JStr ''/WX'']])
        (initialProvider linux) = Inr this'
      \<and> useMsvc this' = JBool False
      \<and> warnings this' = JArr [JStr ''-Wall'', JStr ''-Wextra'', JStr ''-Wpedantic''])"
proof -
  let ?f1 = "Document [''C_Cpp_Runner.useMsvc'' \<mapsto> JBool True,
                   ''C_Cpp_Runner.warnings'' \<mapsto> JArr [JStr ''-Wall'', JStr ''-Wextra'']]"
  let ?f2 = "Document [''C_Cpp_Runner.warnings'' \<mapsto> JArr [JStr ''/W3'', JStr ''/WX'']]"
  have "\<exists>this'. loadLocalSettings exampleEnv ?f1 (initialProvider windows) = Inr this'"
    by (simp add: load_defs exampleEnv_def Let_def)
  then obtain t1 where l1: "loadLocalSettings exampleEnv ?f1 (initialProvider windows) = Inr t1"
    by blast
  have a: "useMsvc t1 = JBool True \<and> warnings t1 = JArr [JStr ''/W4'']"
    using loadLocalSettings_warning_style [OF l1]
    by (auto simp: Let_def getSettingsValue_def EXTENSION_NAME_def exampleEnv_def
        msvcWarningsOf_def DEFAULT_WARNINGS_MSVC_def)
  have "\<exists>this'. loadLocalSettings exampleEnv ?f2 (initialProvider linux) = Inr this'"
    by (simp add: load_defs exampleEnv_def Let_def)
  then obtain t2 where l2: "loadLocalSettings exampleEnv ?f2 (initialProvider linux) = Inr t2"
    by blast
  have b: "useMsvc t2 = JBool False
           \<and> warnings t2 = JArr [JStr ''-Wall'', JStr ''-Wextra'', JStr ''-Wpedantic'']"
    using loadLocalSettings_warning_style [OF l2]
    by (auto simp: Let_def getSettingsValue_def EXTENSION_NAME_def exampleEnv_def
        msvcWarningsOf_def DEFAULT_WARNINGS_UNIX_def DEFAULT_USE_MSVC_def)
  from l1 a l2 b show ?thesis by blast
qed

section \<open>The MSVC tools path\<close>













section \<open>The reaction to a deleted configuration file\<close>












end
